theory Spec2Isabelle
  imports Main "HOL-Library.Word"
begin

section \<open>The ffmpeg log bridge of jxl-oxide-cli\<close>

text \<open>
  The source is \<^verbatim>\<open>crates/jxl-oxide-cli/src/output/ffmpeg_log.c\<close>:
  \<^verbatim>\<open>
  void jxl_oxide_ffmpeg_log(void *avcl, int level, const char *line);

  void jxl_oxide_ffmpeg_log_c(void *avcl, int level, const char *fmt, va_list vl) {
    char *buf = malloc(65536);
    if (buf == NULL) {
      return;
    }

    vsnprintf(buf, 65536, fmt, vl);
    jxl_oxide_ffmpeg_log(avcl, level, buf);
    free(buf);
  }
  \<close>
  The function is embedded as a state transformer on a world that holds the live heap
  blocks and the trace of the calls the function makes. The functions it calls are not
  part of the source file: \<^verbatim>\<open>malloc\<close>, \<^verbatim>\<open>vsnprintf\<close> and \<^verbatim>\<open>free\<close> belong to the C
  library and are modelled by their contracts, the sink belongs to the host and is
  modelled from its declaration.
\<close>

subsection \<open>Data\<close>

text \<open>A pointer is a machine address, \<^verbatim>\<open>NULL\<close> is address 0; a C \<^verbatim>\<open>int\<close> has 32 bits; a C
  \<^verbatim>\<open>char\<close> is a byte, which is what a HOL \<^typ>\<open>char\<close> is.\<close>

type_synonym addr = "64 word"
type_synonym cint = "32 word"

definition NULL :: addr where
  "NULL = 0"

definition NUL :: char where
  "NUL = CHR 0x00"

text \<open>The heap maps the base address of every live block to the block's bytes.\<close>

type_synonym heap = "addr \<rightharpoonup> string"

text \<open>One event for each call the bridge makes, in the order of the calls.
  \<^item> \<open>Ev_malloc n p\<close>: \<^verbatim>\<open>malloc(n)\<close> returned \<open>p\<close>;
  \<^item> \<open>Ev_vsnprintf p n k\<close>: \<^verbatim>\<open>vsnprintf(p, n, ...)\<close> stored \<open>k\<close> bytes at \<open>p\<close>, the
    terminator included;
  \<^item> \<open>Ev_log avcl level line msg\<close>: the sink was called with these three arguments;
    \<open>msg\<close> is the text the sink finds at \<open>line\<close> at the time of the call, \<open>None\<close> when
    \<open>line\<close> does not point to a live block holding a terminated string;
  \<^item> \<open>Ev_free p\<close>: \<^verbatim>\<open>free(p)\<close> released the block at \<open>p\<close>.\<close>

datatype event =
    Ev_malloc nat addr
  | Ev_vsnprintf addr nat nat
  | Ev_log addr cint addr "string option"
  | Ev_free addr

text \<open>What a memory-unsafe call would do in the model instead of corrupting the heap.\<close>

datatype fault =
    Wild_pointer addr
  | Buffer_overrun addr nat
  | Invalid_free addr

record world =
  heap :: heap
  trace :: "event list"

subsection \<open>The C library and the sink\<close>

text \<open>Modelled from the spec: \<^verbatim>\<open>malloc\<close> of the C library, which the source calls and
  which is not under src/ (buffer acquisition that may fail), by its contract in the C
  standard. The allocator's answer to the call is an input of the model: the address it
  returns (\<open>NULL\<close> on failure) and the indeterminate bytes the fresh block holds, given
  as a function of the offset. On failure the heap is unchanged.\<close>

definition malloc :: "addr \<times> (nat \<Rightarrow> char) \<Rightarrow> nat \<Rightarrow> world \<Rightarrow> addr \<times> world" where
  "malloc answer n w =
     (let p = fst answer in
      if p = NULL then (NULL, w\<lparr>trace := trace w @ [Ev_malloc n NULL]\<rparr>)
      else (p, w\<lparr>heap := (heap w)(p \<mapsto> map (snd answer) [0..<n]),
                  trace := trace w @ [Ev_malloc n p]\<rparr>))"

text \<open>Modelled from the spec: \<^verbatim>\<open>vsnprintf\<close> of the C library, which the source calls
  and which is not under src/ (standard printf-style substitution, truncated to the
  largest prefix that fits and terminated), by its contract in the C standard. The
  expansion of a format against an argument list, defined for the pairs where the two
  agree, is the parameter \<open>vformat\<close>. With a size \<open>n > 0\<close> the call stores the first
  \<open>n - 1\<close> characters of the expansion followed by the terminator, and leaves the
  rest of the block as it was; with \<open>n = 0\<close> it stores nothing. A store outside a
  live block is a fault.\<close>

definition vsnprintf ::
  "(string \<Rightarrow> 'v \<Rightarrow> string) \<Rightarrow> addr \<Rightarrow> nat \<Rightarrow> string \<Rightarrow> 'v \<Rightarrow> world \<Rightarrow> fault + world" where
  "vsnprintf vformat buf n fmt vl w =
     (if n = 0 then Inr (w\<lparr>trace := trace w @ [Ev_vsnprintf buf n 0]\<rparr>)
      else
        (case heap w buf of
           None \<Rightarrow> Inl (Wild_pointer buf)
         | Some blk \<Rightarrow>
             (let stored = take (n - 1) (vformat fmt vl) @ [NUL] in
              if length blk < length stored then Inl (Buffer_overrun buf (length stored))
              else Inr (w\<lparr>heap := (heap w)(buf \<mapsto> stored @ drop (length stored) blk),
                          trace := trace w @ [Ev_vsnprintf buf n (length stored)]\<rparr>))))"

text \<open>The text a callee finds at a \<^verbatim>\<open>const char *\<close>: the bytes of the block up to, and
  without, the first terminator. There is no text when the pointer is not the base of a
  live block or the block holds no terminator.\<close>

definition cstring_at :: "heap \<Rightarrow> addr \<Rightarrow> string option" where
  "cstring_at h p =
     (case h p of
        None \<Rightarrow> None
      | Some blk \<Rightarrow> if NUL \<in> set blk then Some (takeWhile (\<lambda>c. c \<noteq> NUL) blk) else None)"

text \<open>Modelled from the spec: the host's sink \<^verbatim>\<open>jxl_oxide_ffmpeg_log\<close>, which the
  source only declares (a function accepting the triple and returning nothing). The
  call is recorded with its arguments and the text found at \<open>line\<close>; the sink reads the
  line through a pointer to \<^verbatim>\<open>const\<close> and leaves the heap as it is.\<close>

definition jxl_oxide_ffmpeg_log :: "addr \<Rightarrow> cint \<Rightarrow> addr \<Rightarrow> world \<Rightarrow> world" where
  "jxl_oxide_ffmpeg_log avcl level line w =
     w\<lparr>trace := trace w @ [Ev_log avcl level line (cstring_at (heap w) line)]\<rparr>"

text \<open>Modelled from the spec: \<^verbatim>\<open>free\<close> of the C library, which the source calls and
  which is not under src/ (release of the buffer), by its contract in the C standard.
  Freeing \<open>NULL\<close> does nothing; freeing an address that is not the base of a live
  block (a second release, for one) is a fault.\<close>

definition free :: "addr \<Rightarrow> world \<Rightarrow> fault + world" where
  "free p w =
     (if p = NULL then Inr w
      else
        (case heap w p of
           None \<Rightarrow> Inl (Invalid_free p)
         | Some blk \<Rightarrow> Inr (w\<lparr>heap := (heap w)(p := None), trace := trace w @ [Ev_free p]\<rparr>)))"

subsection \<open>The bridge\<close>

text \<open>\<^verbatim>\<open>jxl_oxide_ffmpeg_log_c\<close>, statement by statement. The return value of
  \<^verbatim>\<open>vsnprintf\<close> is discarded, as in the source.\<close>

definition jxl_oxide_ffmpeg_log_c ::
  "(string \<Rightarrow> 'v \<Rightarrow> string) \<Rightarrow> addr \<times> (nat \<Rightarrow> char) \<Rightarrow>
     addr \<Rightarrow> cint \<Rightarrow> string \<Rightarrow> 'v \<Rightarrow> world \<Rightarrow> fault + world" where
  "jxl_oxide_ffmpeg_log_c vformat answer avcl level fmt vl w =
     (case malloc answer 65536 w of
        (buf, w1) \<Rightarrow>
          if buf = NULL then Inr w1
          else
            (case vsnprintf vformat buf 65536 fmt vl w1 of
               Inl f \<Rightarrow> Inl f
             | Inr w2 \<Rightarrow> free buf (jxl_oxide_ffmpeg_log avcl level buf w2)))"

subsection \<open>Reading a trace\<close>

text \<open>The events an invocation added to the trace it started from.\<close>

definition emitted :: "world \<Rightarrow> world \<Rightarrow> event list" where
  "emitted w w' = drop (length (trace w)) (trace w')"

text \<open>The triples (context, level, message) handed to the sink, in order.\<close>

fun sink_calls :: "event list \<Rightarrow> (addr \<times> cint \<times> string option) list" where
  "sink_calls [] = []"
| "sink_calls (Ev_log avcl level line msg # es) = (avcl, level, msg) # sink_calls es"
| "sink_calls (e # es) = sink_calls es"

text \<open>The addresses of the blocks acquired, and of the blocks released, in order.\<close>

fun acquired :: "event list \<Rightarrow> addr list" where
  "acquired [] = []"
| "acquired (Ev_malloc n p # es) = (if p = NULL then acquired es else p # acquired es)"
| "acquired (e # es) = acquired es"

fun released :: "event list \<Rightarrow> addr list" where
  "released [] = []"
| "released (Ev_free p # es) = p # released es"
| "released (e # es) = released es"


text \<open>The number of bytes the calls to \<^verbatim>\<open>vsnprintf\<close> stored.\<close>

fun stored :: "event list \<Rightarrow> nat" where
  "stored [] = 0"
| "stored (Ev_vsnprintf p n k # es) = k + stored es"
| "stored (e # es) = stored es"

text \<open>The calls an invocation made, and the triples it forwarded to the sink; \<open>None\<close>
  when the invocation ended in a fault.\<close>

definition calls_made :: "world \<Rightarrow> fault + world \<Rightarrow> event list option" where
  "calls_made w r = (case r of Inl f \<Rightarrow> None | Inr w' \<Rightarrow> Some (emitted w w'))"

definition forwarded :: "world \<Rightarrow> fault + world \<Rightarrow> (addr \<times> cint \<times> string option) list option" where
  "forwarded w r = map_option sink_calls (calls_made w r)"

subsection \<open>Steps\<close>



subsection \<open>A fragment of printf\<close>

text \<open>Modelled from the spec: the printf-style expansion of the C library, which is not
  under src/ (standard printf-style substitution), for the conversions \<^verbatim>\<open>%d\<close>, \<^verbatim>\<open>%c\<close>,
  \<^verbatim>\<open>%s\<close> and \<^verbatim>\<open>%%\<close> without flags, width or precision. The theorems below hold for
  every expansion function \<open>vformat\<close>; this fragment serves to run the bridge on
  concrete formats. Where the format and the arguments disagree, which C leaves
  undefined, the fragment renders nothing for the conversion.\<close>

datatype arg = Arg_int int | Arg_char char | Arg_str string

fun decimal :: "nat \<Rightarrow> string" where
  "decimal n = (if n < 10 then [''0123456789'' ! n]
                else decimal (n div 10) @ [''0123456789'' ! (n mod 10)])"

definition conv_d :: "int \<Rightarrow> string" where
  "conv_d i = (if i < 0 then CHR ''-'' # decimal (nat (- i)) else decimal (nat i))"

fun conversion :: "char \<Rightarrow> arg \<Rightarrow> string" where
  "conversion d (Arg_int i) = (if d = CHR ''d'' then conv_d i else [])"
| "conversion d (Arg_char c) = (if d = CHR ''c'' then [c] else [])"
| "conversion d (Arg_str s) = (if d = CHR ''s'' then takeWhile (\<lambda>c. c \<noteq> NUL) s else [])"

fun printf :: "string \<Rightarrow> arg list \<Rightarrow> string" where
  "printf [] vl = []"
| "printf [c] vl = [c]"
| "printf (c # d # fmt) vl =
     (if c \<noteq> CHR ''%'' then c # printf (d # fmt) vl
      else if d = CHR ''%'' then CHR ''%'' # printf fmt vl
      else (case vl of
              [] \<Rightarrow> []
            | a # vl' \<Rightarrow> conversion d a @ printf fmt vl'))"

text \<open>The world before any call: no live block, no event.\<close>

definition w0 :: world where
  "w0 = \<lparr>heap = Map.empty, trace = []\<rparr>"

section \<open>The two paths of the bridge\<close>

lemma takeWhile_up_to_NUL:
  "takeWhile (\<lambda>c. c \<noteq> NUL) (out @ NUL # rest) = takeWhile (\<lambda>c. c \<noteq> NUL) out"
  by (induction out) simp_all

lemma cstring_at_stored:
  "cstring_at (h(p \<mapsto> out @ NUL # rest)) p = Some (takeWhile (\<lambda>c. c \<noteq> NUL) out)"
  by (simp add: cstring_at_def takeWhile_up_to_NUL)

lemma bridge_fails:
  assumes "fst answer = NULL"
  shows "jxl_oxide_ffmpeg_log_c vformat answer avcl level fmt vl w =
           Inr (w\<lparr>trace := trace w @ [Ev_malloc 65536 NULL]\<rparr>)"
  using assms by (simp add: jxl_oxide_ffmpeg_log_c_def malloc_def)

lemma bridge_succeeds:
  assumes "fst answer \<noteq> NULL"
  shows "jxl_oxide_ffmpeg_log_c vformat answer avcl level fmt vl w =
     Inr (w\<lparr>heap := (heap w)(fst answer := None),
            trace := trace w @
              [Ev_malloc 65536 (fst answer),
               Ev_vsnprintf (fst answer) 65536 (Suc (min 65535 (length (vformat fmt vl)))),
               Ev_log avcl level (fst answer)
                 (Some (takeWhile (\<lambda>c. c \<noteq> NUL) (take 65535 (vformat fmt vl)))),
               Ev_free (fst answer)]\<rparr>)"
  using assms
  by (simp add: jxl_oxide_ffmpeg_log_c_def malloc_def vsnprintf_def Let_def
      jxl_oxide_ffmpeg_log_def free_def cstring_at_stored min.commute)

lemma calls_made_fails:
  assumes "fst answer = NULL"
  shows "calls_made w (jxl_oxide_ffmpeg_log_c vformat answer avcl level fmt vl w) =
           Some [Ev_malloc 65536 NULL]"
  by (simp add: bridge_fails [OF assms] calls_made_def emitted_def)

lemma calls_made_succeeds:
  assumes "fst answer \<noteq> NULL"
  shows "calls_made w (jxl_oxide_ffmpeg_log_c vformat answer avcl level fmt vl w) =
           Some [Ev_malloc 65536 (fst answer),
                 Ev_vsnprintf (fst answer) 65536 (Suc (min 65535 (length (vformat fmt vl)))),
                 Ev_log avcl level (fst answer)
                   (Some (takeWhile (\<lambda>c. c \<noteq> NUL) (take 65535 (vformat fmt vl)))),
                 Ev_free (fst answer)]"
  by (simp add: bridge_succeeds [OF assms] calls_made_def emitted_def)

lemma forwarded_fails:
  assumes "fst answer = NULL"
  shows "forwarded w (jxl_oxide_ffmpeg_log_c vformat answer avcl level fmt vl w) = Some []"
  by (simp add: forwarded_def calls_made_fails [OF assms])

lemma forwarded_succeeds:
  assumes "fst answer \<noteq> NULL"
  shows "forwarded w (jxl_oxide_ffmpeg_log_c vformat answer avcl level fmt vl w) =
           Some [(avcl, level, Some (takeWhile (\<lambda>c. c \<noteq> NUL) (take 65535 (vformat fmt vl))))]"
  by (simp add: forwarded_def calls_made_succeeds [OF assms])

lemma malloc_block_size:
  assumes "fst answer \<noteq> NULL"
  shows "map_option length (heap (snd (malloc answer n w)) (fst (malloc answer n w))) = Some n"
  using assms by (simp add: malloc_def Let_def)

lemma takeWhile_no_NUL:
  assumes "NUL \<notin> set s"
  shows "takeWhile (\<lambda>c. c \<noteq> NUL) s = s"
  using assms by (induction s) auto


lemma printf_percent_s:
  "printf ''%s'' [Arg_str (replicate n CHR ''a'')] = replicate n CHR ''a''"
  by (simp add: takeWhile_replicate NUL_def)


section \<open>The claims\<close>

text \<open>
  C1 (as amended). When the allocation succeeds, the expansion of the format against
  the arguments has at most 65535 characters and holds no NUL character, the sink is
  handed one triple, whose message is exactly the expansion. The sink receives the line
  as a pointer to a terminated string, so an expansion with a NUL inside (\<^verbatim>\<open>%c\<close> given
  0) reaches it cut at that NUL: the claim without the restriction fails.
\<close>

theorem short_line_forwarded_whole:
  assumes "fst answer \<noteq> NULL"
    and "length (vformat fmt vl) \<le> 65535"
    and "NUL \<notin> set (vformat fmt vl)"
  shows "forwarded w (jxl_oxide_ffmpeg_log_c vformat answer avcl level fmt vl w) =
           Some [(avcl, level, Some (vformat fmt vl))]"
  using assms by (simp add: forwarded_succeeds takeWhile_no_NUL)

theorem short_line_forwarded_whole_witness:
  "fst (0x1000 :: addr, \<lambda>i :: nat. CHR ''?'') \<noteq> NULL \<and>
   length (printf ''decode error: %d frames dropped'' [Arg_int 42]) \<le> 65535 \<and>
   NUL \<notin> set (printf ''decode error: %d frames dropped'' [Arg_int 42]) \<and>
   forwarded w0
     (jxl_oxide_ffmpeg_log_c printf (0x1000, \<lambda>i. CHR ''?'') 0x7F00 16
        ''decode error: %d frames dropped'' [Arg_int 42] w0) =
     Some [(0x7F00, 16, Some ''decode error: 42 frames dropped'')]"
proof -
  have a: "fst (0x1000 :: addr, \<lambda>i :: nat. CHR ''?'') \<noteq> NULL"
    by (simp add: NULL_def)
  have e: "printf ''decode error: %d frames dropped'' [Arg_int 42] =
             ''decode error: 42 frames dropped''"
    by (simp add: conv_d_def)
  have l: "length (printf ''decode error: %d frames dropped'' [Arg_int 42]) \<le> 65535"
    unfolding e by simp
  have n: "NUL \<notin> set (printf ''decode error: %d frames dropped'' [Arg_int 42])"
    unfolding e by (simp add: NUL_def)
  show ?thesis
    using a l n
      short_line_forwarded_whole [where vformat = printf
        and answer = "(0x1000, \<lambda>i. CHR ''?'')"
        and fmt = "''decode error: %d frames dropped''" and vl = "[Arg_int 42]"
        and w = w0 and avcl = "0x7F00" and level = 16]
    unfolding e by simp
qed

text \<open>
  C1 as stated fails: the format \<^verbatim>\<open>%c\<close> with the character 0 expands to one character,
  which is within the capacity, and the message the sink finds is empty.
\<close>

theorem short_line_with_NUL_counterexample:
  "fst (0x1000 :: addr, \<lambda>i :: nat. CHR ''?'') \<noteq> NULL \<and>
   length (printf ''%c'' [Arg_char NUL]) \<le> 65535 \<and>
   forwarded w0
     (jxl_oxide_ffmpeg_log_c printf (0x1000, \<lambda>i. CHR ''?'') 0x7F00 16 ''%c'' [Arg_char NUL] w0) =
     Some [(0x7F00, 16, Some [])] \<and>
   forwarded w0
     (jxl_oxide_ffmpeg_log_c printf (0x1000, \<lambda>i. CHR ''?'') 0x7F00 16 ''%c'' [Arg_char NUL] w0) \<noteq>
     Some [(0x7F00, 16, Some (printf ''%c'' [Arg_char NUL]))]"
  by (simp add: forwarded_succeeds NULL_def)

text \<open>
  C2 (as amended). When the allocation succeeds and the expansion has more than 65535
  characters: the block acquired has exactly 65536 bytes; \<^verbatim>\<open>vsnprintf\<close> stores 65536
  bytes, the terminator included, so no store falls outside the block and the
  invocation ends in no fault; the message the sink finds is a terminated text of at
  most 65535 characters, namely the first 65535 characters of the expansion up to their
  first NUL. It equals the first 65535 characters of the expansion when none of them is
  NUL.
\<close>

theorem long_line_truncated:
  assumes "fst answer \<noteq> NULL"
    and "65535 < length (vformat fmt vl)"
  shows "map_option length (heap (snd (malloc answer 65536 w)) (fst (malloc answer 65536 w))) =
           Some 65536 \<and>
         calls_made w (jxl_oxide_ffmpeg_log_c vformat answer avcl level fmt vl w) =
           Some [Ev_malloc 65536 (fst answer),
                 Ev_vsnprintf (fst answer) 65536 65536,
                 Ev_log avcl level (fst answer)
                   (Some (takeWhile (\<lambda>c. c \<noteq> NUL) (take 65535 (vformat fmt vl)))),
                 Ev_free (fst answer)] \<and>
         length (takeWhile (\<lambda>c. c \<noteq> NUL) (take 65535 (vformat fmt vl))) \<le> 65535 \<and>
         (NUL \<notin> set (take 65535 (vformat fmt vl)) \<longrightarrow>
            forwarded w (jxl_oxide_ffmpeg_log_c vformat answer avcl level fmt vl w) =
              Some [(avcl, level, Some (take 65535 (vformat fmt vl)))])"
proof (intro conjI impI)
  show "map_option length (heap (snd (malloc answer 65536 w)) (fst (malloc answer 65536 w))) =
          Some 65536"
    using assms(1) by (rule malloc_block_size)
  have m: "min 65535 (length (vformat fmt vl)) = 65535"
    using assms(2) by simp
  show "calls_made w (jxl_oxide_ffmpeg_log_c vformat answer avcl level fmt vl w) =
           Some [Ev_malloc 65536 (fst answer),
                 Ev_vsnprintf (fst answer) 65536 65536,
                 Ev_log avcl level (fst answer)
                   (Some (takeWhile (\<lambda>c. c \<noteq> NUL) (take 65535 (vformat fmt vl)))),
                 Ev_free (fst answer)]"
    by (simp add: calls_made_succeeds [OF assms(1)] m)
  have "length (takeWhile (\<lambda>c. c \<noteq> NUL) (take 65535 (vformat fmt vl))) \<le>
          length (take 65535 (vformat fmt vl))"
    by (rule length_takeWhile_le)
  then show "length (takeWhile (\<lambda>c. c \<noteq> NUL) (take 65535 (vformat fmt vl))) \<le> 65535"
    by simp
next
  assume "NUL \<notin> set (take 65535 (vformat fmt vl))"
  then show "forwarded w (jxl_oxide_ffmpeg_log_c vformat answer avcl level fmt vl w) =
              Some [(avcl, level, Some (take 65535 (vformat fmt vl)))]"
    by (simp add: forwarded_succeeds [OF assms(1)] takeWhile_no_NUL)
qed

theorem long_line_truncated_witness:
  "fst (0x1000 :: addr, \<lambda>i :: nat. CHR ''?'') \<noteq> NULL \<and>
   65535 < length (printf ''%s'' [Arg_str (replicate 70000 CHR ''a'')]) \<and>
   NUL \<notin> set (take 65535 (printf ''%s'' [Arg_str (replicate 70000 CHR ''a'')])) \<and>
   calls_made w0
     (jxl_oxide_ffmpeg_log_c printf (0x1000, \<lambda>i. CHR ''?'') 0x7F00 16
        ''%s'' [Arg_str (replicate 70000 CHR ''a'')] w0) =
     Some [Ev_malloc 65536 0x1000, Ev_vsnprintf 0x1000 65536 65536,
           Ev_log 0x7F00 16 0x1000 (Some (replicate 65535 CHR ''a'')), Ev_free 0x1000] \<and>
   forwarded w0
     (jxl_oxide_ffmpeg_log_c printf (0x1000, \<lambda>i. CHR ''?'') 0x7F00 16
        ''%s'' [Arg_str (replicate 70000 CHR ''a'')] w0) =
     Some [(0x7F00, 16, Some (replicate 65535 CHR ''a''))]"
proof -
  have a: "fst (0x1000 :: addr, \<lambda>i :: nat. CHR ''?'') \<noteq> NULL"
    by (simp add: NULL_def)
  have e: "printf ''%s'' [Arg_str (replicate 70000 CHR ''a'')] = replicate 70000 CHR ''a''"
    by (rule printf_percent_s)
  have l: "65535 < length (printf ''%s'' [Arg_str (replicate 70000 CHR ''a'')])"
    unfolding e by simp
  have n: "NUL \<notin> set (take 65535 (printf ''%s'' [Arg_str (replicate 70000 CHR ''a'')]))"
    unfolding e by (simp add: NUL_def)
  show ?thesis
    using a l n
      long_line_truncated [where vformat = printf
        and answer = "(0x1000, \<lambda>i. CHR ''?'')"
        and fmt = "''%s''" and vl = "[Arg_str (replicate 70000 CHR ''a'')]"
        and w = w0 and avcl = "0x7F00" and level = 16]
    unfolding e by (simp add: NUL_def)
qed

text \<open>
  C2 as stated fails: the format \<^verbatim>\<open>%c%s\<close> with the character 0 and a string of 70000
  characters expands to 70001 characters, and the message the sink finds is empty, not
  the first 65535 characters of the expansion.
\<close>

theorem long_line_with_NUL_counterexample:
  "fst (0x1000 :: addr, \<lambda>i :: nat. CHR ''?'') \<noteq> NULL \<and>
   65535 < length (printf ''%c%s'' [Arg_char NUL, Arg_str (replicate 70000 CHR ''a'')]) \<and>
   forwarded w0
     (jxl_oxide_ffmpeg_log_c printf (0x1000, \<lambda>i. CHR ''?'') 0x7F00 16
        ''%c%s'' [Arg_char NUL, Arg_str (replicate 70000 CHR ''a'')] w0) =
     Some [(0x7F00, 16, Some [])] \<and>
   forwarded w0
     (jxl_oxide_ffmpeg_log_c printf (0x1000, \<lambda>i. CHR ''?'') 0x7F00 16
        ''%c%s'' [Arg_char NUL, Arg_str (replicate 70000 CHR ''a'')] w0) \<noteq>
     Some [(0x7F00, 16,
        Some (take 65535 (printf ''%c%s'' [Arg_char NUL, Arg_str (replicate 70000 CHR ''a'')])))]"
proof -
  have a: "fst (0x1000 :: addr, \<lambda>i :: nat. CHR ''?'') \<noteq> NULL"
    by (simp add: NULL_def)
  have e: "printf ''%c%s'' [Arg_char NUL, Arg_str (replicate 70000 CHR ''a'')] =
             NUL # replicate 70000 CHR ''a''"
    by (simp add: takeWhile_replicate NUL_def)
  show ?thesis
    unfolding e forwarded_succeeds [OF a] using a by simp
qed

text \<open>
  C3. When the allocation fails (\<^verbatim>\<open>malloc\<close> returns \<open>NULL\<close>), the invocation returns
  normally: it ends in no fault, leaves the heap as it was, has made the one call to
  \<^verbatim>\<open>malloc\<close> and no other, and has handed nothing to the sink.
\<close>

theorem failed_allocation_is_silent:
  assumes "fst answer = NULL"
  shows "jxl_oxide_ffmpeg_log_c vformat answer avcl level fmt vl w =
           Inr (w\<lparr>trace := trace w @ [Ev_malloc 65536 NULL]\<rparr>) \<and>
         forwarded w (jxl_oxide_ffmpeg_log_c vformat answer avcl level fmt vl w) = Some []"
proof
  show "jxl_oxide_ffmpeg_log_c vformat answer avcl level fmt vl w =
          Inr (w\<lparr>trace := trace w @ [Ev_malloc 65536 NULL]\<rparr>)"
    using assms by (rule bridge_fails)
  show "forwarded w (jxl_oxide_ffmpeg_log_c vformat answer avcl level fmt vl w) = Some []"
    using assms by (rule forwarded_fails)
qed

theorem failed_allocation_is_silent_witness:
  "fst (NULL, \<lambda>i :: nat. CHR ''?'') = NULL \<and>
   jxl_oxide_ffmpeg_log_c printf (NULL, \<lambda>i. CHR ''?'') 0x7F00 16
       ''decode error: %d frames dropped'' [Arg_int 42] w0 =
     Inr \<lparr>heap = Map.empty, trace = [Ev_malloc 65536 NULL]\<rparr> \<and>
   forwarded w0
     (jxl_oxide_ffmpeg_log_c printf (NULL, \<lambda>i. CHR ''?'') 0x7F00 16
        ''decode error: %d frames dropped'' [Arg_int 42] w0) = Some []"
proof -
  have a: "fst (NULL, \<lambda>i :: nat. CHR ''?'') = NULL"
    by simp
  show ?thesis
    using a
      failed_allocation_is_silent [where vformat = printf
        and answer = "(NULL, \<lambda>i. CHR ''?'')"
        and fmt = "''decode error: %d frames dropped''" and vl = "[Arg_int 42]"
        and w = w0 and avcl = "0x7F00" and level = 16]
    by (simp add: w0_def forwarded_def calls_made_def emitted_def)
qed

text \<open>
  C4. For every context (\<open>NULL\<close> included) and every level of the 32-bit range, the
  triple handed to the sink carries the context and the level the bridge received, and
  the rest of the triple does not depend on them; when the allocation fails nothing is
  forwarded, whatever they are.
\<close>

theorem context_and_level_pass_through:
  "forwarded w (jxl_oxide_ffmpeg_log_c vformat answer avcl level fmt vl w) =
     (if fst answer = NULL then Some []
      else Some [(avcl, level,
                  Some (takeWhile (\<lambda>c. c \<noteq> NUL) (take 65535 (vformat fmt vl))))])"
  by (simp add: forwarded_fails forwarded_succeeds)

theorem context_and_level_pass_through_witness:
  "forwarded w0
     (jxl_oxide_ffmpeg_log_c printf (0x1000, \<lambda>i. CHR ''?'') NULL (- 2147483648)
        ''%s: %d'' [Arg_str ''frame'', Arg_int (- 7)] w0) =
     Some [(NULL, - 2147483648, Some ''frame: -7'')]"
  using context_and_level_pass_through [where vformat = printf
      and answer = "(0x1000, \<lambda>i. CHR ''?'')"
      and fmt = "''%s: %d''" and vl = "[Arg_str ''frame'', Arg_int (- 7)]"
      and w = w0 and avcl = NULL and level = "- 2147483648"]
  by (simp add: NULL_def NUL_def conv_d_def)

text \<open>
  C5. An invocation calls the sink exactly once when the allocation succeeds and not
  at all when it fails.
\<close>

theorem sink_called_once_or_never:
  "map_option length (forwarded w (jxl_oxide_ffmpeg_log_c vformat answer avcl level fmt vl w)) =
     Some (if fst answer = NULL then 0 else 1)"
  by (simp add: forwarded_fails forwarded_succeeds)

theorem sink_called_once_or_never_witness:
  "map_option length
     (forwarded w0
        (jxl_oxide_ffmpeg_log_c printf (0x1000, \<lambda>i. CHR ''?'') 0x7F00 16
           ''decode error: %d frames dropped'' [Arg_int 42] w0)) = Some 1 \<and>
   map_option length
     (forwarded w0
        (jxl_oxide_ffmpeg_log_c printf (NULL, \<lambda>i. CHR ''?'') 0x7F00 16
           ''decode error: %d frames dropped'' [Arg_int 42] w0)) = Some 0"
  using sink_called_once_or_never [where vformat = printf
      and answer = "(0x1000, \<lambda>i. CHR ''?'')"
      and fmt = "''decode error: %d frames dropped''" and vl = "[Arg_int 42]"
      and w = w0 and avcl = "0x7F00" and level = 16]
    sink_called_once_or_never [where vformat = printf
      and answer = "(NULL, \<lambda>i. CHR ''?'')"
      and fmt = "''decode error: %d frames dropped''" and vl = "[Arg_int 42]"
      and w = w0 and avcl = "0x7F00" and level = 16]
  by (simp add: NULL_def)

text \<open>
  C6. When the allocator returns no address that is already live, an invocation ends in
  no fault (so no release of a block that is not live), leaves the heap as it found it
  (no leak), and releases exactly the blocks it acquired: one block, once, when the
  allocation succeeds, none when it fails.
\<close>

theorem one_allocation_one_release:
  assumes "heap w (fst answer) = None"
  shows "\<exists>w'. jxl_oxide_ffmpeg_log_c vformat answer avcl level fmt vl w = Inr w' \<and>
              heap w' = heap w \<and>
              acquired (emitted w w') = (if fst answer = NULL then [] else [fst answer]) \<and>
              released (emitted w w') = acquired (emitted w w')"
proof (cases "fst answer = NULL")
  case True
  then show ?thesis
    by (simp add: bridge_fails emitted_def)
next
  case False
  have "(heap w)(fst answer := None) = heap w"
    using assms by (simp add: fun_upd_idem)
  with False show ?thesis
    by (simp add: bridge_succeeds emitted_def)
qed

theorem one_allocation_one_release_witness:
  "heap w0 (fst (0x1000 :: addr, \<lambda>i :: nat. CHR ''?'')) = None \<and>
   (\<exists>w'. jxl_oxide_ffmpeg_log_c printf (0x1000, \<lambda>i. CHR ''?'') 0x7F00 16
            ''decode error: %d frames dropped'' [Arg_int 42] w0 = Inr w' \<and>
         heap w' = heap w0 \<and>
         acquired (emitted w0 w') = [0x1000] \<and>
         released (emitted w0 w') = [0x1000])"
proof -
  have h: "heap w0 (fst (0x1000 :: addr, \<lambda>i :: nat. CHR ''?'')) = None"
    by (simp add: w0_def)
  have a: "fst (0x1000 :: addr, \<lambda>i :: nat. CHR ''?'') \<noteq> NULL"
    by (simp add: NULL_def)
  obtain w' where r: "jxl_oxide_ffmpeg_log_c printf (0x1000, \<lambda>i. CHR ''?'') 0x7F00 16
            ''decode error: %d frames dropped'' [Arg_int 42] w0 = Inr w'"
      and k: "heap w' = heap w0"
      and q: "acquired (emitted w0 w') =
                (if fst (0x1000 :: addr, \<lambda>i :: nat. CHR ''?'') = NULL then []
                 else [fst (0x1000 :: addr, \<lambda>i :: nat. CHR ''?'')])"
      and f: "released (emitted w0 w') = acquired (emitted w0 w')"
    using one_allocation_one_release [OF h, where vformat = printf
        and fmt = "''decode error: %d frames dropped''" and vl = "[Arg_int 42]"
        and avcl = "0x7F00" and level = 16]
    by blast
  from q a have q': "acquired (emitted w0 w') = [0x1000]"
    by simp
  from f q' have f': "released (emitted w0 w') = [0x1000]"
    by simp
  from h r k q' f' show ?thesis
    by blast
qed

text \<open>
  C7. What is forwarded to the sink is a function of the context, the level, the format,
  the arguments and of whether the allocation succeeded: two invocations that agree on
  these forward the same triples, whatever world each starts from (whatever earlier
  invocations left behind), whatever address and initial bytes the allocator gave each.
\<close>

theorem forwarding_is_stateless:
  assumes "(fst a1 = NULL) = (fst a2 = NULL)"
  shows "forwarded w1 (jxl_oxide_ffmpeg_log_c vformat a1 avcl level fmt vl w1) =
         forwarded w2 (jxl_oxide_ffmpeg_log_c vformat a2 avcl level fmt vl w2)"
proof (cases "fst a1 = NULL")
  case True
  with assms have "fst a2 = NULL"
    by simp
  with True show ?thesis
    by (simp add: forwarded_fails)
next
  case False
  with assms have "fst a2 \<noteq> NULL"
    by simp
  with False show ?thesis
    by (simp add: forwarded_succeeds)
qed

theorem forwarding_is_stateless_witness:
  "(fst (0x1000 :: addr, \<lambda>i :: nat. CHR ''?'') = NULL) =
     (fst (0x2000 :: addr, \<lambda>i :: nat. CHR ''#'') = NULL) \<and>
   forwarded w0
     (jxl_oxide_ffmpeg_log_c printf (0x1000, \<lambda>i. CHR ''?'') 0x7F00 16
        ''decode error: %d frames dropped'' [Arg_int 42] w0) =
   forwarded \<lparr>heap = [0x3000 \<mapsto> ''kept''], trace = [Ev_malloc 5 0x3000, Ev_malloc 65536 NULL]\<rparr>
     (jxl_oxide_ffmpeg_log_c printf (0x2000, \<lambda>i. CHR ''#'') 0x7F00 16
        ''decode error: %d frames dropped'' [Arg_int 42]
        \<lparr>heap = [0x3000 \<mapsto> ''kept''], trace = [Ev_malloc 5 0x3000, Ev_malloc 65536 NULL]\<rparr>)"
proof -
  have a: "(fst (0x1000 :: addr, \<lambda>i :: nat. CHR ''?'') = NULL) =
     (fst (0x2000 :: addr, \<lambda>i :: nat. CHR ''#'') = NULL)"
    by (simp add: NULL_def)
  show ?thesis
    using a forwarding_is_stateless [OF a, where vformat = printf
        and fmt = "''decode error: %d frames dropped''" and vl = "[Arg_int 42]"
        and avcl = "0x7F00" and level = 16 and ?w1.0 = w0
        and ?w2.0 = "\<lparr>heap = [0x3000 \<mapsto> ''kept''], trace = [Ev_malloc 5 0x3000, Ev_malloc 65536 NULL]\<rparr>"]
    by blast
qed




text \<open>
  C9. When the allocation succeeds the calls are, in this order, \<^verbatim>\<open>malloc\<close>,
  \<^verbatim>\<open>vsnprintf\<close>, the sink, \<^verbatim>\<open>free\<close>: the release follows the call of the sink. At the
  call of the sink the line points to a live block holding a terminated text; once the
  invocation has returned there is no text at that address any more.
\<close>

theorem release_follows_sink_call:
  assumes "fst answer \<noteq> NULL"
  shows "calls_made w (jxl_oxide_ffmpeg_log_c vformat answer avcl level fmt vl w) =
           Some [Ev_malloc 65536 (fst answer),
                 Ev_vsnprintf (fst answer) 65536 (Suc (min 65535 (length (vformat fmt vl)))),
                 Ev_log avcl level (fst answer)
                   (Some (takeWhile (\<lambda>c. c \<noteq> NUL) (take 65535 (vformat fmt vl)))),
                 Ev_free (fst answer)] \<and>
         (\<exists>w'. jxl_oxide_ffmpeg_log_c vformat answer avcl level fmt vl w = Inr w' \<and>
               cstring_at (heap w') (fst answer) = None)"
proof
  show "calls_made w (jxl_oxide_ffmpeg_log_c vformat answer avcl level fmt vl w) =
           Some [Ev_malloc 65536 (fst answer),
                 Ev_vsnprintf (fst answer) 65536 (Suc (min 65535 (length (vformat fmt vl)))),
                 Ev_log avcl level (fst answer)
                   (Some (takeWhile (\<lambda>c. c \<noteq> NUL) (take 65535 (vformat fmt vl)))),
                 Ev_free (fst answer)]"
    using assms by (rule calls_made_succeeds)
  show "\<exists>w'. jxl_oxide_ffmpeg_log_c vformat answer avcl level fmt vl w = Inr w' \<and>
               cstring_at (heap w') (fst answer) = None"
    by (simp add: bridge_succeeds [OF assms] cstring_at_def)
qed

theorem release_follows_sink_call_witness:
  "fst (0x1000 :: addr, \<lambda>i :: nat. CHR ''?'') \<noteq> NULL \<and>
   calls_made w0
     (jxl_oxide_ffmpeg_log_c printf (0x1000, \<lambda>i. CHR ''?'') 0x7F00 16
        ''decode error: %d frames dropped'' [Arg_int 42] w0) =
     Some [Ev_malloc 65536 0x1000, Ev_vsnprintf 0x1000 65536 32,
           Ev_log 0x7F00 16 0x1000 (Some ''decode error: 42 frames dropped''),
           Ev_free 0x1000]"
proof -
  have a: "fst (0x1000 :: addr, \<lambda>i :: nat. CHR ''?'') \<noteq> NULL"
    by (simp add: NULL_def)
  have e: "printf ''decode error: %d frames dropped'' [Arg_int 42] =
             ''decode error: 42 frames dropped''"
    by (simp add: conv_d_def)
  show ?thesis
    using a release_follows_sink_call [OF a, where vformat = printf
        and fmt = "''decode error: %d frames dropped''" and vl = "[Arg_int 42]"
        and w = w0 and avcl = "0x7F00" and level = 16]
    unfolding e by (simp add: NUL_def)
qed

text \<open>
  C10. For the empty format, which expands to the empty text, and a successful
  allocation, the sink is called once, with the empty terminated text as message.
\<close>

theorem empty_format_still_forwarded:
  assumes "fst answer \<noteq> NULL"
    and "vformat [] vl = []"
  shows "forwarded w (jxl_oxide_ffmpeg_log_c vformat answer avcl level [] vl w) =
           Some [(avcl, level, Some [])]"
  using assms by (simp add: forwarded_succeeds)

theorem empty_format_still_forwarded_witness:
  "fst (0x1000 :: addr, \<lambda>i :: nat. CHR ''?'') \<noteq> NULL \<and>
   printf [] [Arg_int 42] = [] \<and>
   forwarded w0
     (jxl_oxide_ffmpeg_log_c printf (0x1000, \<lambda>i. CHR ''?'') 0x7F00 16 [] [Arg_int 42] w0) =
     Some [(0x7F00, 16, Some [])]"
proof -
  have a: "fst (0x1000 :: addr, \<lambda>i :: nat. CHR ''?'') \<noteq> NULL"
    by (simp add: NULL_def)
  have e: "printf [] [Arg_int 42] = []"
    by simp
  show ?thesis
    using a e
      empty_format_still_forwarded [where vformat = printf
        and answer = "(0x1000, \<lambda>i. CHR ''?'')" and vl = "[Arg_int 42]"
        and w = w0 and avcl = "0x7F00" and level = 16]
    by blast
qed

end
